theory Spec2Isabelle
  imports Main "HOL-Library.Char_ord" "HOL-Library.List_Lexorder"
begin

section \<open>The node type of jsongo.go\<close>

text \<open>
  \<^verbatim>\<open>jsonNodeType\<close> is the iota enumeration of the source; the six package-level error
  values become the constructors of \<open>error\<close>. \<open>JSONError\<close> stands for an error value
  that comes out of encoding/json, \<open>MarshalerError\<close> for the wrapper json.Marshal puts
  around the error of a nested \<^verbatim>\<open>MarshalJSON\<close>, and \<open>RuntimeError\<close> for a Go run-time
  panic (an index out of range).
\<close>

datatype jsonNodeType = TypeUndefined | TypeMap | TypeArray | TypeValue

datatype error =
    ErrorKeyAlreadyExist
  | ErrorMultipleType
  | ErrorArrayNegativeValue
  | ErrorAtUnsupportedType
  | ErrorRetrieveUserValue
  | ErrorTypeUnmarshaling
  | JSONError string
  | MarshalerError error
  | RuntimeError

text \<open>
  The struct \<^verbatim>\<open>JSONNode\<close> with its five fields \<^verbatim>\<open>m\<close>, \<^verbatim>\<open>a\<close>, \<^verbatim>\<open>v\<close>, \<^verbatim>\<open>t\<close>,
  \<^verbatim>\<open>dontGenerate\<close>; the selectors carry the prefix \<open>node_\<close> because one-letter constants
  would capture the variables of every later statement.

  \<^item> \<^verbatim>\<open>m map[string]*JSONNode\<close>: \<open>None\<close> is the nil map. A Go map has no order, so
    it is represented by its association list sorted by key (each key once): equal
    maps are equal terms, and the order is the one json.Marshal emits.
  \<^item> \<^verbatim>\<open>a []JSONNode\<close>: \<open>None\<close> is the nil slice, \<open>Some []\<close> an allocated empty one
    (json.Marshal tells them apart).
  \<^item> \<^verbatim>\<open>v interface{}\<close>: \<open>None\<close> is the nil interface; \<open>'v\<close> is whatever the caller or the
    generic decoder stores.

  A \<^verbatim>\<open>*JSONNode\<close> that points into a tree is represented by the tree and the position:
  an operation returns the node it was called on, as it is afterwards, next to its result,
  and a write through a returned pointer is a store at that position.
\<close>

datatype 'v JSONNode = JSONNode
  (node_m: "(string \<times> 'v JSONNode) list option")
  (node_a: "'v JSONNode list option")
  (node_v: "'v option")
  (node_t: jsonNodeType)
  (dontGenerate: bool)

text \<open>The zero value \<^verbatim>\<open>JSONNode{}\<close>, which is also what \<^verbatim>\<open>new(JSONNode)\<close> points to.\<close>

definition zero_node :: "'v JSONNode" where
  "zero_node = JSONNode None None None TypeUndefined False"

text \<open>A call either returns or panics with an error value; the node is left as it is then.\<close>

datatype 'r outcome = Returned 'r | Panicked error

text \<open>Field assignments.\<close>

definition set_m :: "(string \<times> 'v JSONNode) list option \<Rightarrow> 'v JSONNode \<Rightarrow> 'v JSONNode" where
  "set_m x n = JSONNode x (node_a n) (node_v n) (node_t n) (dontGenerate n)"

definition set_a :: "'v JSONNode list option \<Rightarrow> 'v JSONNode \<Rightarrow> 'v JSONNode" where
  "set_a x n = JSONNode (node_m n) x (node_v n) (node_t n) (dontGenerate n)"

definition set_v :: "'v option \<Rightarrow> 'v JSONNode \<Rightarrow> 'v JSONNode" where
  "set_v x n = JSONNode (node_m n) (node_a n) x (node_t n) (dontGenerate n)"

definition set_t :: "jsonNodeType \<Rightarrow> 'v JSONNode \<Rightarrow> 'v JSONNode" where
  "set_t x n = JSONNode (node_m n) (node_a n) (node_v n) x (dontGenerate n)"

definition set_dontGenerate :: "bool \<Rightarrow> 'v JSONNode \<Rightarrow> 'v JSONNode" where
  "set_dontGenerate x n = JSONNode (node_m n) (node_a n) (node_v n) (node_t n) x"

text \<open>
  \<^verbatim>\<open>len(that.m)\<close>, \<^verbatim>\<open>len(that.a)\<close> and the elements of a map or slice; nil has length 0
  and no elements.
\<close>

definition entries :: "'v JSONNode \<Rightarrow> (string \<times> 'v JSONNode) list" where
  "entries n = (case node_m n of None \<Rightarrow> [] | Some kvs \<Rightarrow> kvs)"

definition elems :: "'v JSONNode \<Rightarrow> 'v JSONNode list" where
  "elems n = (case node_a n of None \<Rightarrow> [] | Some xs \<Rightarrow> xs)"

definition len_m :: "'v JSONNode \<Rightarrow> int" where
  "len_m n = int (length (entries n))"

definition len_a :: "'v JSONNode \<Rightarrow> int" where
  "len_a n = int (length (elems n))"

text \<open>
  \<^verbatim>\<open>that.m[key] = c\<close> on an allocated map: the entry of \<open>key\<close> is replaced where it is,
  a new key goes to its place in the key order.
\<close>

fun assign_key :: "string \<Rightarrow> 'a \<Rightarrow> (string \<times> 'a) list \<Rightarrow> (string \<times> 'a) list" where
  "assign_key key c [] = [(key, c)]"
| "assign_key key c ((k, x) # kvs) =
     (if key = k then (key, c) # kvs
      else if key < k then (key, c) # (k, x) # kvs
      else (k, x) # assign_key key c kvs)"

definition store_key :: "string \<Rightarrow> 'v JSONNode \<Rightarrow> 'v JSONNode \<Rightarrow> 'v JSONNode" where
  "store_key key c n = set_m (Some (assign_key key c (entries n))) n"

definition store_index :: "nat \<Rightarrow> 'v JSONNode \<Rightarrow> 'v JSONNode \<Rightarrow> 'v JSONNode" where
  "store_index i c n = set_a (Some ((elems n)[i := c])) n"

section \<open>Navigation and the explicit mutators\<close>

text \<open>A step of \<^verbatim>\<open>At\<close>: the \<^verbatim>\<open>interface{}\<close> argument is a string, an int, or anything else.\<close>

datatype step = StepString string | StepInt int | StepOther

text \<open>
  A Go \<^verbatim>\<open>int\<close> has 64 bits: it is an \<open>int\<close> of HOL between \<open>- 2 ^ 63\<close> and \<open>2 ^ 63 - 1\<close>, and
  \<open>wrap_int\<close> is what an addition that leaves this range yields. The only arithmetic of
  the package is \<^verbatim>\<open>key+1\<close> in \<^verbatim>\<open>atArray\<close>; at the largest \<^verbatim>\<open>int\<close> it wraps to a negative
  length, with which \<^verbatim>\<open>make\<close> panics.
\<close>

definition wrap_int :: "int \<Rightarrow> int" where
  "wrap_int x = (x + 2 ^ 63) mod 2 ^ 64 - 2 ^ 63"

text \<open>
  \<^verbatim>\<open>At\<close>, \<^verbatim>\<open>atMap\<close> and \<^verbatim>\<open>atArray\<close>. The result is the node the returned pointer points
  to; the second component is the receiver afterwards, with everything the call created
  on the way, also when a later step panics.
\<close>

function At :: "step list \<Rightarrow> 'v JSONNode \<Rightarrow> 'v JSONNode outcome \<times> 'v JSONNode"
and atMap :: "string \<Rightarrow> step list \<Rightarrow> 'v JSONNode \<Rightarrow> 'v JSONNode outcome \<times> 'v JSONNode"
and atArray :: "int \<Rightarrow> step list \<Rightarrow> 'v JSONNode \<Rightarrow> 'v JSONNode outcome \<times> 'v JSONNode"
where
  "At [] that = (Returned that, that)"
| "At (StepString vv # val) that = atMap vv val that"
| "At (StepInt vv # val) that = atArray vv val that"
| "At (StepOther # val) that = (Panicked ErrorAtUnsupportedType, that)"
| "atMap key val that =
     (if node_t that \<noteq> TypeUndefined \<and> node_t that \<noteq> TypeMap
      then (Panicked ErrorMultipleType, that)
      else
        let that1 = (if node_m that = None then set_t TypeMap (set_m (Some []) that) else that)
        in (case map_of (entries that1) key of
              Some next \<Rightarrow>
                (case At val next of (r, next') \<Rightarrow> (r, store_key key next' that1))
            | None \<Rightarrow>
                (case At val zero_node of (r, c) \<Rightarrow> (r, store_key key c that1))))"
| "atArray key val that =
     (if node_t that \<noteq> TypeUndefined \<and> node_t that \<noteq> TypeArray
      then (Panicked ErrorMultipleType, that)
      else
        let that1 = (if node_t that = TypeUndefined then set_t TypeArray that else that)
        in if key < 0 then (Panicked ErrorArrayNegativeValue, that1)
           else if key \<ge> len_a that1 \<and> wrap_int (key + 1) < 0
           then (Panicked RuntimeError, that1)
           else
             let that2 =
               (if key \<ge> len_a that1
                then set_a (Some (elems that1 @
                       replicate (nat (wrap_int (key + 1)) - length (elems that1))
                         zero_node)) that1
                else that1)
             in (case At val (elems that2 ! nat key) of
                   (r, c) \<Rightarrow> (r, store_index (nat key) c that2)))"
  by pat_completeness auto
termination
  by (relation "measure (\<lambda>x. case x of
          Inl (val, _) \<Rightarrow> 2 * length val
        | Inr (Inl (_, val, _)) \<Rightarrow> 2 * length val + 1
        | Inr (Inr (_, val, _)) \<Rightarrow> 2 * length val + 1)") auto

text \<open>
  \<^verbatim>\<open>Map\<close> returns the new child. \<^verbatim>\<open>Array\<close> returns the slice it has just stored. Its
  copy loop runs up to the smaller of \<^verbatim>\<open>size\<close> and \<^verbatim>\<open>len(that.m)\<close>, as the source has
  it, and reading \<^verbatim>\<open>that.a[i]\<close> past the end of \<^verbatim>\<open>that.a\<close> is a run-time panic.
\<close>

definition Map :: "string \<Rightarrow> 'v JSONNode \<Rightarrow> 'v JSONNode outcome \<times> 'v JSONNode" where
  "Map key that =
     (if node_t that \<noteq> TypeUndefined \<and> node_t that \<noteq> TypeMap
      then (Panicked ErrorMultipleType, that)
      else
        let that1 = (if node_m that = None then set_t TypeMap (set_m (Some []) that) else that)
        in (case map_of (entries that1) key of
              Some _ \<Rightarrow> (Panicked ErrorKeyAlreadyExist, that1)
            | None \<Rightarrow> (Returned zero_node, store_key key zero_node that1)))"

definition Array :: "int \<Rightarrow> 'v JSONNode \<Rightarrow> 'v JSONNode list outcome \<times> 'v JSONNode" where
  "Array sz that =
     (if node_t that \<noteq> TypeUndefined \<and> node_t that \<noteq> TypeArray
      then (Panicked ErrorMultipleType, that)
      else
        let that1 = (if node_t that = TypeUndefined then set_t TypeArray that else that)
        in if sz < 0 then (Panicked ErrorArrayNegativeValue, that1)
           else
             let mn = (if sz < len_m that1 then sz else len_m that1)
             in if mn > len_a that1 then (Panicked RuntimeError, that1)
                else
                  let newa = take (nat mn) (elems that1) @
                             replicate (nat sz - nat mn) zero_node
                  in (Returned newa, set_a (Some newa) that1))"

definition Val :: "'v option \<Rightarrow> 'v JSONNode \<Rightarrow> unit outcome \<times> 'v JSONNode" where
  "Val val that =
     (if node_t that \<noteq> TypeUndefined \<and> node_t that \<noteq> TypeValue
      then (Panicked ErrorMultipleType, that)
      else
        let that1 = (if node_t that = TypeUndefined then set_t TypeValue that else that)
        in (Returned (), set_v val that1))"

definition Get :: "'v JSONNode \<Rightarrow> 'v option outcome \<times> 'v JSONNode" where
  "Get that =
     (if node_t that \<noteq> TypeValue then (Panicked ErrorRetrieveUserValue, that)
      else (Returned (node_v that), that))"

definition Unset :: "'v JSONNode \<Rightarrow> 'v JSONNode" where
  "Unset that = zero_node"


text \<open>
  \<^verbatim>\<open>UnmarshalDontGenerate\<close>: the flag is set on the receiver and, with \<^verbatim>\<open>recurse\<close>, on
  every child that exists now, through the map or the slice that the kind selects.
\<close>

function UnmarshalDontGenerate :: "bool \<Rightarrow> bool \<Rightarrow> 'v JSONNode \<Rightarrow> 'v JSONNode" where
  "UnmarshalDontGenerate val recurse that =
     (let that1 = set_dontGenerate val that
      in if recurse then
           (case node_t that1 of
              TypeMap \<Rightarrow>
                set_m (map_option (map (\<lambda>(k, c). (k, UnmarshalDontGenerate val recurse c)))
                         (node_m that1)) that1
            | TypeArray \<Rightarrow>
                set_a (map_option (map (UnmarshalDontGenerate val recurse)) (node_a that1)) that1
            | _ \<Rightarrow> that1)
         else that1)"
  by pat_completeness auto
termination
proof (relation "measure (\<lambda>(val, recurse, that). size that)", goal_cases)
  case 1
  show ?case by simp
next
  case (2 val recurse that that1 kvs kc k c)
  then have "node_m that = Some kvs" "(k, c) \<in> set kvs"
    by (simp_all add: set_dontGenerate_def)
  then show ?case
    by (cases that) (auto simp: less_Suc_eq_le dest!: size_list_estimation'[where f = "size_prod (\<lambda>_. 0) size" and y = "size c"])
next
  case (3 val recurse that that1 xs c)
  then have "node_a that = Some xs" "c \<in> set xs"
    by (simp_all add: set_dontGenerate_def)
  then show ?case
    by (cases that) (auto simp: less_Suc_eq_le dest!: size_list_estimation'[where f = size and y = "size c"])
qed

section \<open>The text codec\<close>

text \<open>
  encoding/json is a collaborator of the package, not part of it. The node code uses six
  of its services, which are the fields of a \<open>codec\<close>:

  \<^item> \<open>dec_object\<close>: \<^verbatim>\<open>json.Unmarshal(data, &tmp)\<close> with \<^verbatim>\<open>tmp map[string]json.RawMessage\<close>;
    the result lists the entries of \<^verbatim>\<open>tmp\<close> in the order \<^verbatim>\<open>range tmp\<close> visits them;
  \<^item> \<open>dec_array\<close>: the same with \<^verbatim>\<open>tmp []json.RawMessage\<close>;
  \<^item> \<open>dec_value\<close>: the same with \<^verbatim>\<open>tmp interface{}\<close>;
  \<^item> \<open>enc_value\<close>: \<^verbatim>\<open>json.Marshal\<close> of an \<^verbatim>\<open>interface{}\<close>;
  \<^item> \<open>enc_object\<close>, \<open>enc_array\<close>: what \<^verbatim>\<open>json.Marshal\<close> assembles from the texts that
    the children's \<^verbatim>\<open>MarshalJSON\<close> returned, for a map (by key) and for a slice.
\<close>

record 'v codec =
  dec_object :: "string \<Rightarrow> error + (string \<times> string) list"
  dec_array :: "string \<Rightarrow> error + string list"
  dec_value :: "string \<Rightarrow> error + 'v option"
  enc_value :: "'v option \<Rightarrow> error + string"
  enc_object :: "(string \<times> string) list \<Rightarrow> error + string"
  enc_array :: "string list \<Rightarrow> error + string"

section \<open>Encoding\<close>

text \<open>
  json.Marshal calls \<^verbatim>\<open>MarshalJSON\<close> on every child, in key order for a map and in index
  order for a slice, and stops at the first error, which it wraps. A nil map or slice is
  encoded like nil.
\<close>

fun collect :: "(error + 'a) list \<Rightarrow> error + 'a list" where
  "collect [] = Inr []"
| "collect (Inl e # rs) = Inl e"
| "collect (Inr x # rs) = (case collect rs of Inl e \<Rightarrow> Inl e | Inr xs \<Rightarrow> Inr (x # xs))"

function MarshalJSON :: "'v codec \<Rightarrow> 'v JSONNode \<Rightarrow> error + string" where
  "MarshalJSON C that =
     (case node_t that of
        TypeMap \<Rightarrow>
          (case node_m that of
             None \<Rightarrow> enc_value C None
           | Some kvs \<Rightarrow>
               (case collect (map (\<lambda>(k, c). map_sum id (Pair k) (MarshalJSON C c)) kvs) of
                  Inl err \<Rightarrow> Inl (MarshalerError err)
                | Inr members \<Rightarrow> enc_object C members))
      | TypeArray \<Rightarrow>
          (case node_a that of
             None \<Rightarrow> enc_value C None
           | Some xs \<Rightarrow>
               (case collect (map (MarshalJSON C) xs) of
                  Inl err \<Rightarrow> Inl (MarshalerError err)
                | Inr texts \<Rightarrow> enc_array C texts))
      | TypeValue \<Rightarrow> enc_value C (node_v that)
      | TypeUndefined \<Rightarrow> enc_value C None)"
  by pat_completeness auto
termination
proof (relation "measure (\<lambda>(C, that). size that)", goal_cases)
  case 1
  show ?case by simp
next
  case (2 C that kvs kc k c)
  then show ?case
    by (cases that) (auto simp: less_Suc_eq_le dest!: size_list_estimation'[where f = "size_prod (\<lambda>_. 0) size" and y = "size c"])
next
  case (3 C that xs c)
  then show ?case
    by (cases that) (auto simp: less_Suc_eq_le dest!: size_list_estimation'[where f = size and y = "size c"])
qed

section \<open>Decoding\<close>

text \<open>
  \<^verbatim>\<open>UnmarshalJSON\<close> returns nil (\<open>Returned None\<close>), returns an error
  (\<open>Returned (Some err)\<close>) or panics, and leaves the node as far as it got.

  The nested \<^verbatim>\<open>json.Unmarshal(tmp[k], child)\<close> hands a raw message that the decoder has
  cut out of a valid document to the child's \<^verbatim>\<open>UnmarshalJSON\<close>, and returns what that
  returns; it is the recursive call \<open>rec\<close> here. The write through the child pointer is
  the store of the decoded child at its key or index.

  The recursion follows the nesting of the text, which is as deep as the codec makes it:
  the function carries fuel, one unit for each level, and \<open>None\<close> says that the fuel ran
  out.
\<close>

type_synonym 'v unmarshal_result = "(error option outcome \<times> 'v JSONNode) option"

text \<open>The loop \<^verbatim>\<open>for k := range tmp\<close> of the object branch.\<close>

fun unmarshal_members ::
  "(string \<Rightarrow> 'v JSONNode \<Rightarrow> 'v unmarshal_result) \<Rightarrow> (string \<times> string) list
     \<Rightarrow> 'v JSONNode \<Rightarrow> 'v unmarshal_result" where
  "unmarshal_members rec [] that = Some (Returned None, that)"
| "unmarshal_members rec ((k, raw) # tmp) that =
     (case map_of (entries that) k of
        Some child \<Rightarrow>
          (case rec raw child of
             None \<Rightarrow> None
           | Some (r, child') \<Rightarrow>
               if r = Returned None then unmarshal_members rec tmp (store_key k child' that)
               else Some (r, store_key k child' that))
      | None \<Rightarrow>
          if \<not> dontGenerate that then
            (case Map k that of
               (Panicked e, that1) \<Rightarrow> Some (Panicked e, that1)
             | (Returned child, that1) \<Rightarrow>
                 (case rec raw child of
                    None \<Rightarrow> None
                  | Some (r, child') \<Rightarrow>
                      if r = Returned None
                      then unmarshal_members rec tmp (store_key k child' that1)
                      else Some (r, store_key k child' that1)))
          else unmarshal_members rec tmp that)"

text \<open>
  The loop \<^verbatim>\<open>for i := len(tmp) - 1; i >= 0; i--\<close> of the array branch; the counter of
  the model is \<open>i + 1\<close>.
\<close>

fun unmarshal_elements ::
  "(string \<Rightarrow> 'v JSONNode \<Rightarrow> 'v unmarshal_result) \<Rightarrow> string list \<Rightarrow> nat
     \<Rightarrow> 'v JSONNode \<Rightarrow> 'v unmarshal_result" where
  "unmarshal_elements rec tmp 0 that = Some (Returned None, that)"
| "unmarshal_elements rec tmp (Suc i) that =
     (if \<not> dontGenerate that \<or> int i < len_a that then
        (case At [StepInt (int i)] that of
           (Panicked e, that1) \<Rightarrow> Some (Panicked e, that1)
         | (Returned child, that1) \<Rightarrow>
             (case rec (tmp ! i) child of
                None \<Rightarrow> None
              | Some (r, child') \<Rightarrow>
                  if r = Returned None
                  then unmarshal_elements rec tmp i (store_index i child' that1)
                  else Some (r, store_index i child' that1)))
      else unmarshal_elements rec tmp i that)"

primrec UnmarshalJSON ::
  "'v codec \<Rightarrow> nat \<Rightarrow> string \<Rightarrow> 'v JSONNode \<Rightarrow> 'v unmarshal_result" where
  "UnmarshalJSON C 0 = (\<lambda>data that. None)"
| "UnmarshalJSON C (Suc fuel) = (\<lambda>data that.
     if length data = 0 then Some (Returned None, that)
     else if \<not> (dontGenerate that \<and> node_t that = TypeUndefined) \<and> data ! 0 = CHR ''{'' then
       (if node_t that \<noteq> TypeMap \<and> node_t that \<noteq> TypeUndefined
        then Some (Returned (Some ErrorTypeUnmarshaling), that)
        else (case dec_object C data of
                Inl err \<Rightarrow> Some (Returned (Some err), that)
              | Inr tmp \<Rightarrow> unmarshal_members (UnmarshalJSON C fuel) tmp that))
     else if \<not> (dontGenerate that \<and> node_t that = TypeUndefined) \<and> data ! 0 = CHR ''['' then
       (if node_t that \<noteq> TypeArray \<and> node_t that \<noteq> TypeUndefined
        then Some (Returned (Some ErrorTypeUnmarshaling), that)
        else (case dec_array C data of
                Inl err \<Rightarrow> Some (Returned (Some err), that)
              | Inr tmp \<Rightarrow> unmarshal_elements (UnmarshalJSON C fuel) tmp (length tmp) that))
     else
       (case dec_value C data of
          Inl err \<Rightarrow> Some (Returned (Some err), that)
        | Inr tmp \<Rightarrow>
            (case Val tmp that of
               (Panicked e, that1) \<Rightarrow> Some (Panicked e, that1)
             | (Returned _, that1) \<Rightarrow> Some (Returned None, that1))))"

section \<open>A reference codec\<close>

text \<open>
  A codec to run the node code on concrete texts: compact JSON (no white space) with
  integer numbers and strings without escapes. What \<^verbatim>\<open>interface{}\<close> receives from the generic
  decoder is a \<open>jvalue\<close>; the nil interface, which is what \<^verbatim>\<open>null\<close> decodes to, is \<open>None\<close>.
  The statements about the node code are made for every codec; this one supplies their
  concrete instances.
\<close>

datatype jvalue =
    JNull
  | JBool bool
  | JNumber int
  | JString string
  | JArray "jvalue list"
  | JObject "(string \<times> jvalue) list"

definition is_digit :: "char \<Rightarrow> bool" where
  "is_digit c = (c \<in> set ''0123456789'')"

definition nat_of_digits :: "string \<Rightarrow> nat" where
  "nat_of_digits ds = foldl (\<lambda>n c. 10 * n + (of_char c - 48)) 0 ds"

fun digits_of_nat :: "nat \<Rightarrow> string" where
  "digits_of_nat n =
     (if n < 10 then [char_of (48 + n)]
      else digits_of_nat (n div 10) @ [char_of (48 + n mod 10)])"

definition plain_string :: "string \<Rightarrow> bool" where
  "plain_string s = (CHR 0x22 \<notin> set s \<and> CHR 0x5C \<notin> set s)"

definition join :: "string list \<Rightarrow> string" where
  "join xs = (case xs of [] \<Rightarrow> [] | x # rest \<Rightarrow> x @ concat (map (\<lambda>y. CHR '','' # y) rest))"

text \<open>
  The pieces of a body between its top-level commas: \<open>d\<close> is the bracket depth, \<open>q\<close> says
  that the scan is inside a string, \<open>cur\<close> is the piece read so far, reversed.
\<close>

fun split_top :: "nat \<Rightarrow> bool \<Rightarrow> string \<Rightarrow> string \<Rightarrow> string list" where
  "split_top d q cur [] = [rev cur]"
| "split_top d q cur (c # cs) =
     (if q then split_top d (c \<noteq> CHR 0x22) (c # cur) cs
      else if c = CHR 0x22 then split_top d True (c # cur) cs
      else if c = CHR ''['' \<or> c = CHR ''{'' then split_top (Suc d) False (c # cur) cs
      else if c = CHR '']'' \<or> c = CHR ''}'' then split_top (d - 1) False (c # cur) cs
      else if c = CHR '','' \<and> d = 0 then rev cur # split_top 0 False [] cs
      else split_top d False (c # cur) cs)"

definition pieces :: "string \<Rightarrow> string list" where
  "pieces data = (let body = butlast (tl data) in if body = [] then [] else split_top 0 False [] body)"

text \<open>A member \<^verbatim>\<open>"key":raw\<close> of an object.\<close>

definition split_member :: "string \<Rightarrow> (string \<times> string) option" where
  "split_member mem =
     (case mem of
        [] \<Rightarrow> None
      | c # cs \<Rightarrow>
          if c \<noteq> CHR 0x22 then None
          else (case dropWhile (\<lambda>x. x \<noteq> CHR 0x22) cs of
                  q # colon # r # raw \<Rightarrow>
                    if colon = CHR '':'' \<and> CHR 0x5C \<notin> set (takeWhile (\<lambda>x. x \<noteq> CHR 0x22) cs)
                    then Some (takeWhile (\<lambda>x. x \<noteq> CHR 0x22) cs, r # raw)
                    else None
                | _ \<Rightarrow> None))"

definition parse_number :: "string \<Rightarrow> jvalue option" where
  "parse_number s =
     (let ds = (if s \<noteq> [] \<and> hd s = CHR ''-'' then tl s else s)
      in if ds \<noteq> [] \<and> list_all is_digit ds \<and> (hd ds \<noteq> CHR ''0'' \<or> length ds = 1)
         then Some (JNumber (if s \<noteq> [] \<and> hd s = CHR ''-''
                             then - int (nat_of_digits ds) else int (nat_of_digits ds)))
         else None)"

text \<open>An object keeps the last member of each key, as a Go map does.\<close>

fun last_wins :: "(string \<times> 'a) list \<Rightarrow> (string \<times> 'a) list" where
  "last_wins [] = []"
| "last_wins ((k, x) # kvs) =
     (if k \<in> fst ` set kvs then last_wins kvs else (k, x) # last_wins kvs)"

primrec parse_value :: "nat \<Rightarrow> string \<Rightarrow> jvalue option" where
  "parse_value 0 = (\<lambda>s. None)"
| "parse_value (Suc fuel) = (\<lambda>s.
     if s = ''null'' then Some JNull
     else if s = ''true'' then Some (JBool True)
     else if s = ''false'' then Some (JBool False)
     else if 2 \<le> length s \<and> hd s = CHR 0x22 \<and> last s = CHR 0x22 then
       (if plain_string (butlast (tl s)) then Some (JString (butlast (tl s))) else None)
     else if 2 \<le> length s \<and> hd s = CHR ''['' \<and> last s = CHR '']'' then
       map_option JArray (those (map (parse_value fuel) (pieces s)))
     else if 2 \<le> length s \<and> hd s = CHR ''{'' \<and> last s = CHR ''}'' then
       (case those (map split_member (pieces s)) of
          None \<Rightarrow> None
        | Some kvs \<Rightarrow>
            map_option (\<lambda>vs. JObject (last_wins (zip (map fst kvs) vs)))
              (those (map (\<lambda>(k, raw). parse_value fuel raw) kvs)))
     else parse_number s)"

definition syntax_error :: error where
  "syntax_error = JSONError ''invalid character''"

definition type_error :: error where
  "type_error = JSONError ''cannot unmarshal''"

definition ref_dec_value :: "string \<Rightarrow> error + jvalue option" where
  "ref_dec_value data =
     (case parse_value (length data) data of
        None \<Rightarrow> Inl syntax_error
      | Some JNull \<Rightarrow> Inr None
      | Some x \<Rightarrow> Inr (Some x))"

definition ref_dec_array :: "string \<Rightarrow> error + string list" where
  "ref_dec_array data =
     (case parse_value (length data) data of
        None \<Rightarrow> Inl syntax_error
      | Some (JArray _) \<Rightarrow> Inr (pieces data)
      | Some _ \<Rightarrow> Inl type_error)"

definition ref_dec_object :: "string \<Rightarrow> error + (string \<times> string) list" where
  "ref_dec_object data =
     (case parse_value (length data) data of
        None \<Rightarrow> Inl syntax_error
      | Some (JObject _) \<Rightarrow>
          (case those (map split_member (pieces data)) of
             None \<Rightarrow> Inl syntax_error
           | Some kvs \<Rightarrow> Inr (last_wins kvs))
      | Some _ \<Rightarrow> Inl type_error)"

definition quoted :: "string \<Rightarrow> string" where
  "quoted s = CHR 0x22 # s @ [CHR 0x22]"

fun print_value :: "jvalue \<Rightarrow> string option" where
  "print_value JNull = Some ''null''"
| "print_value (JBool b) = Some (if b then ''true'' else ''false'')"
| "print_value (JNumber i) =
     Some (if i < 0 then CHR ''-'' # digits_of_nat (nat (- i)) else digits_of_nat (nat i))"
| "print_value (JString s) = (if plain_string s then Some (quoted s) else None)"
| "print_value (JArray xs) =
     map_option (\<lambda>ts. CHR ''['' # join ts @ '']'') (those (map print_value xs))"
| "print_value (JObject kvs) =
     (if list_all (\<lambda>(k, x). plain_string k) kvs then
        map_option (\<lambda>ts. CHR ''{'' # join (map (\<lambda>(k, t). quoted k @ CHR '':'' # t)
                                             (zip (map fst kvs) ts)) @ ''}'')
          (those (map (\<lambda>(k, x). print_value x) kvs))
      else None)"

definition unsupported :: error where
  "unsupported = JSONError ''unsupported value''"

definition ref_enc_value :: "jvalue option \<Rightarrow> error + string" where
  "ref_enc_value x =
     (case x of
        None \<Rightarrow> Inr ''null''
      | Some y \<Rightarrow> (case print_value y of None \<Rightarrow> Inl unsupported | Some s \<Rightarrow> Inr s))"

definition ref_enc_array :: "string list \<Rightarrow> error + string" where
  "ref_enc_array ts = Inr (CHR ''['' # join ts @ '']'')"

definition ref_enc_object :: "(string \<times> string) list \<Rightarrow> error + string" where
  "ref_enc_object members =
     (if list_all (\<lambda>(k, t). plain_string k) members
      then Inr (CHR ''{'' # join (map (\<lambda>(k, t). quoted k @ CHR '':'' # t) members) @ ''}'')
      else Inl unsupported)"

definition ref_codec :: "jvalue codec" where
  "ref_codec = \<lparr> dec_object = ref_dec_object, dec_array = ref_dec_array,
                 dec_value = ref_dec_value, enc_value = ref_enc_value,
                 enc_object = ref_enc_object, enc_array = ref_enc_array \<rparr>"

section \<open>Kinds before and after an operation\<close>

text \<open>
  \<open>kind_kept k k'\<close>: a node of kind \<open>k\<close> may have kind \<open>k'\<close> afterwards, that is, \<open>k\<close> is
  Undefined or \<open>k'\<close> is \<open>k\<close>. \<open>kinds_kept n n'\<close> says so for the node and for everything
  below it that is still there: every key of \<open>n\<close> is a key of \<open>n'\<close>, every index of \<open>n\<close> is
  an index of \<open>n'\<close>, and the children at that key or index are related in the same way.
\<close>

definition kind_kept :: "jsonNodeType \<Rightarrow> jsonNodeType \<Rightarrow> bool" where
  "kind_kept k k' = (k = TypeUndefined \<or> k' = k)"

function kinds_kept :: "'v JSONNode \<Rightarrow> 'v JSONNode \<Rightarrow> bool" where
  "kinds_kept n n' =
     (kind_kept (node_t n) (node_t n')
      \<and> list_all (\<lambda>(k, c). map_of (entries n) k = Some c \<longrightarrow>
                    (case map_of (entries n') k of
                       None \<Rightarrow> False
                     | Some c' \<Rightarrow> kinds_kept c c')) (entries n)
      \<and> length (elems n) \<le> length (elems n')
      \<and> list_all (\<lambda>(c, c'). kinds_kept c c') (zip (elems n) (elems n')))"
  by pat_completeness auto
termination
proof (relation "measure (\<lambda>(n, n'). size n)", goal_cases)
  case 1
  show ?case by simp
next
  case (2 n n' kc k c c')
  then have "(k, c) \<in> set (entries n)"
    by simp
  then show ?case
    by (cases n)
       (auto simp: less_Suc_eq_le entries_def elems_def split: option.splits
             dest!: size_list_estimation'[where f = "size_prod (\<lambda>_. 0) size" and y = "size c"])
next
  case (3 n n' cc c c')
  then have "c \<in> set (elems n)"
    by (auto dest: set_zip_leftD)
  then show ?case
    by (cases n)
       (auto simp: less_Suc_eq_le entries_def elems_def split: option.splits
             dest!: size_list_estimation'[where f = size and y = "size c"])
qed

section \<open>Basic facts\<close>

subsection \<open>Fields\<close>

lemma sel_set_m [simp]:
  "node_m (set_m x n) = x" "node_a (set_m x n) = node_a n" "node_v (set_m x n) = node_v n"
  "node_t (set_m x n) = node_t n" "dontGenerate (set_m x n) = dontGenerate n"
  by (simp_all add: set_m_def)

lemma sel_set_a [simp]:
  "node_m (set_a x n) = node_m n" "node_a (set_a x n) = x" "node_v (set_a x n) = node_v n"
  "node_t (set_a x n) = node_t n" "dontGenerate (set_a x n) = dontGenerate n"
  by (simp_all add: set_a_def)

lemma sel_set_v [simp]:
  "node_m (set_v x n) = node_m n" "node_a (set_v x n) = node_a n" "node_v (set_v x n) = x"
  "node_t (set_v x n) = node_t n" "dontGenerate (set_v x n) = dontGenerate n"
  by (simp_all add: set_v_def)

lemma sel_set_t [simp]:
  "node_m (set_t x n) = node_m n" "node_a (set_t x n) = node_a n" "node_v (set_t x n) = node_v n"
  "node_t (set_t x n) = x" "dontGenerate (set_t x n) = dontGenerate n"
  by (simp_all add: set_t_def)

lemma sel_set_dontGenerate [simp]:
  "node_m (set_dontGenerate x n) = node_m n" "node_a (set_dontGenerate x n) = node_a n"
  "node_v (set_dontGenerate x n) = node_v n" "node_t (set_dontGenerate x n) = node_t n"
  "dontGenerate (set_dontGenerate x n) = x"
  by (simp_all add: set_dontGenerate_def)

lemma sel_zero_node [simp]:
  "node_m zero_node = None" "node_a zero_node = None" "node_v zero_node = None"
  "node_t zero_node = TypeUndefined" "dontGenerate zero_node = False"
  by (simp_all add: zero_node_def)

lemma entries_simps [simp]:
  "entries (JSONNode mm aa vv tt dd) = (case mm of None \<Rightarrow> [] | Some kvs \<Rightarrow> kvs)"
  "entries (set_m x n) = (case x of None \<Rightarrow> [] | Some kvs \<Rightarrow> kvs)"
  "entries (set_a y n) = entries n" "entries (set_v z n) = entries n"
  "entries (set_t u n) = entries n" "entries (set_dontGenerate b n) = entries n"
  "entries zero_node = []"
  by (simp_all add: entries_def)

lemma elems_simps [simp]:
  "elems (JSONNode mm aa vv tt dd) = (case aa of None \<Rightarrow> [] | Some xs \<Rightarrow> xs)"
  "elems (set_a y n) = (case y of None \<Rightarrow> [] | Some xs \<Rightarrow> xs)"
  "elems (set_m x n) = elems n" "elems (set_v z n) = elems n"
  "elems (set_t u n) = elems n" "elems (set_dontGenerate b n) = elems n"
  "elems zero_node = []"
  by (simp_all add: elems_def)

lemma sel_store_key [simp]:
  "node_m (store_key k c n) = Some (assign_key k c (entries n))"
  "node_a (store_key k c n) = node_a n" "node_v (store_key k c n) = node_v n"
  "node_t (store_key k c n) = node_t n" "dontGenerate (store_key k c n) = dontGenerate n"
  "entries (store_key k c n) = assign_key k c (entries n)"
  "elems (store_key k c n) = elems n"
  by (simp_all add: store_key_def)

lemma sel_store_index [simp]:
  "node_m (store_index i c n) = node_m n"
  "node_a (store_index i c n) = Some ((elems n)[i := c])"
  "node_v (store_index i c n) = node_v n"
  "node_t (store_index i c n) = node_t n" "dontGenerate (store_index i c n) = dontGenerate n"
  "entries (store_index i c n) = entries n"
  "elems (store_index i c n) = (elems n)[i := c]"
  by (simp_all add: store_index_def)

subsection \<open>Map entries\<close>





subsection \<open>One step of navigation\<close>

lemma Val_unfold:
  "Val x n =
     (if node_t n \<noteq> TypeUndefined \<and> node_t n \<noteq> TypeValue then (Panicked ErrorMultipleType, n)
      else (Returned (), set_v x (if node_t n = TypeUndefined then set_t TypeValue n else n)))"
  by (simp add: Val_def Let_def)

lemma wrap_int_id: "- (2 ^ 63) \<le> x \<Longrightarrow> x < 2 ^ 63 \<Longrightarrow> wrap_int x = x"
  unfolding wrap_int_def by (simp add: mod_pos_pos_trivial)

lemma At_index_unfold:
  assumes "0 \<le> i" "i < 2 ^ 63 - 1" "node_t n = TypeUndefined \<or> node_t n = TypeArray"
  shows "At [StepInt i] n =
    (let n1 = (if node_t n = TypeUndefined then set_t TypeArray n else n);
         n2 = (if i \<ge> len_a n
               then set_a (Some (elems n @ replicate (nat (i + 1) - length (elems n)) zero_node)) n1
               else n1)
     in (Returned (elems n2 ! nat i), store_index (nat i) (elems n2 ! nat i) n2))"
proof -
  have "wrap_int (i + 1) = i + 1"
    using assms by (intro wrap_int_id) simp_all
  then show ?thesis
    using assms by (auto simp: Let_def len_a_def)
qed




subsection \<open>The branches of decoding\<close>

lemma UnmarshalJSON_empty: "UnmarshalJSON C (Suc fuel) [] that = Some (Returned None, that)"
  by simp

lemma UnmarshalJSON_scalar:
  assumes "data \<noteq> []"
    "(dontGenerate that \<and> node_t that = TypeUndefined)
       \<or> (data ! 0 \<noteq> CHR ''{'' \<and> data ! 0 \<noteq> CHR ''['')"
  shows "UnmarshalJSON C (Suc fuel) data that =
    (case dec_value C data of
       Inl err \<Rightarrow> Some (Returned (Some err), that)
     | Inr x \<Rightarrow>
         if node_t that \<noteq> TypeUndefined \<and> node_t that \<noteq> TypeValue
         then Some (Panicked ErrorMultipleType, that)
         else Some (Returned None,
                set_v x (if node_t that = TypeUndefined then set_t TypeValue that else that)))"
  using assms by (auto simp add: Val_unfold split: sum.splits)

lemma UnmarshalJSON_array:
  assumes "data \<noteq> []" "data ! 0 = CHR ''[''"
    "\<not> (dontGenerate that \<and> node_t that = TypeUndefined)"
  shows "UnmarshalJSON C (Suc fuel) data that =
    (if node_t that \<noteq> TypeArray \<and> node_t that \<noteq> TypeUndefined
     then Some (Returned (Some ErrorTypeUnmarshaling), that)
     else (case dec_array C data of
             Inl err \<Rightarrow> Some (Returned (Some err), that)
           | Inr tmp \<Rightarrow> unmarshal_elements (UnmarshalJSON C fuel) tmp (length tmp) that))"
  using assms by simp

lemma UnmarshalJSON_object:
  assumes "data \<noteq> []" "data ! 0 = CHR ''{''"
    "\<not> (dontGenerate that \<and> node_t that = TypeUndefined)"
  shows "UnmarshalJSON C (Suc fuel) data that =
    (if node_t that \<noteq> TypeMap \<and> node_t that \<noteq> TypeUndefined
     then Some (Returned (Some ErrorTypeUnmarshaling), that)
     else (case dec_object C data of
             Inl err \<Rightarrow> Some (Returned (Some err), that)
           | Inr tmp \<Rightarrow> unmarshal_members (UnmarshalJSON C fuel) tmp that))"
  using assms by simp

declare UnmarshalJSON.simps [simp del]

lemma decode_scalar_fresh:
  assumes "dec_value C raw = Inr x" "raw \<noteq> []" "raw ! 0 \<noteq> CHR ''{''" "raw ! 0 \<noteq> CHR ''[''"
  shows "UnmarshalJSON C (Suc fuel) raw zero_node =
         Some (Returned None, JSONNode None None x TypeValue False)"
  using assms by (simp add: UnmarshalJSON_scalar) (simp add: set_v_def set_t_def zero_node_def)

lemma elements_3:
  assumes "rec r1 zero_node = Some (Returned None, c1)"
    "rec r2 zero_node = Some (Returned None, c2)"
    "rec r3 zero_node = Some (Returned None, c3)"
    "node_t that = TypeUndefined" "\<not> dontGenerate that" "elems that = []"
  shows "unmarshal_elements rec [r1, r2, r3] (Suc (Suc (Suc 0))) that =
         Some (Returned None, set_a (Some [c1, c2, c3]) (set_t TypeArray that))"
  using assms
  by (simp add: wrap_int_def Let_def len_a_def numeral_3_eq_3 numeral_2_eq_2)
     (simp add: set_a_def store_index_def)

section \<open>The claims\<close>

text \<open>
  C1. The claim: \<^verbatim>\<open>Array(size)\<close> on an Undefined or Array node keeps the elements at the
  indices below \<open>min(size, old length)\<close>. The source bounds its copy loop by
  \<^verbatim>\<open>len(that.m)\<close>, the length of the map, which is nil on every node that passes the kind
  check, so the loop never runs. Here the node is the one left by \<^verbatim>\<open>Array(2)\<close> followed by
  \<^verbatim>\<open>At(0).Val(x)\<close>: after \<^verbatim>\<open>Array(1)\<close> its element 0 is a fresh Undefined node, not the
  Value node holding \<open>x\<close>.
\<close>

theorem C1_Array_drops_kept_element:
  "Array 1 (JSONNode None (Some [JSONNode None None (Some x) TypeValue False, zero_node])
              None TypeArray False)
   = (Returned [zero_node], JSONNode None (Some [zero_node]) None TypeArray False)"
  by (simp add: Array_def len_m_def len_a_def set_a_def Let_def)

text \<open>The same for every node that has no map: all \<open>sz\<close> elements are fresh.\<close>

lemma Array_all_fresh:
  assumes "node_m that = None" "0 \<le> sz" "node_t that = TypeUndefined \<or> node_t that = TypeArray"
  shows "Array sz that = (Returned (replicate (nat sz) zero_node),
           set_a (Some (replicate (nat sz) zero_node)) (set_t TypeArray that))"
  using assms
  by (auto simp add: Array_def len_m_def len_a_def entries_def Let_def intro: JSONNode.expand)

text \<open>
  C2. The claim as stated, for any Undefined node, fails on an Undefined node whose
  \<^verbatim>\<open>dontGenerate\<close> flag is set, which \<^verbatim>\<open>UnmarshalDontGenerate(true, false)\<close> makes of the
  zero node: the text \<^verbatim>\<open>[1,2,3]\<close> then goes down the scalar path and the node becomes a
  Value node that holds the decoded array, not an Array node.
\<close>

theorem C2_flagged_undefined_counterexample:
  "node_t (UnmarshalDontGenerate True False (zero_node :: jvalue JSONNode)) = TypeUndefined
   \<and> UnmarshalJSON ref_codec 2 ''[1,2,3]''
        (UnmarshalDontGenerate True False (zero_node :: jvalue JSONNode)) =
      Some (Returned None,
        JSONNode None None (Some (JArray [JNumber 1, JNumber 2, JNumber 3])) TypeValue True)"
  by code_simp

text \<open>
  C2, amended. Decoding the text \<^verbatim>\<open>[1,2,3]\<close> into an Undefined node whose \<^verbatim>\<open>dontGenerate\<close>
  flag is not set returns nil and leaves an Array node of three Value nodes that hold, in
  index order, what the generic decoder makes of \<^verbatim>\<open>1\<close>, \<^verbatim>\<open>2\<close> and \<^verbatim>\<open>3\<close>; decoding it
  into a node of kind Object returns \<^verbatim>\<open>ErrorTypeUnmarshaling\<close> and leaves the node as it
  was. The assumptions on the codec say what encoding/json does with these four texts;
  an Undefined node has no elements.
\<close>

theorem C2_decode_array_text:
  assumes "dec_array C ''[1,2,3]'' = Inr [''1'', ''2'', ''3'']"
    and "dec_value C ''1'' = Inr v1" and "dec_value C ''2'' = Inr v2"
    and "dec_value C ''3'' = Inr v3"
    and "node_t that = TypeUndefined" and "\<not> dontGenerate that" and "elems that = []"
    and "node_t other = TypeMap"
  shows "UnmarshalJSON C (Suc (Suc fuel)) ''[1,2,3]'' that =
           Some (Returned None,
             set_a (Some [JSONNode None None v1 TypeValue False,
                          JSONNode None None v2 TypeValue False,
                          JSONNode None None v3 TypeValue False]) (set_t TypeArray that))
       \<and> UnmarshalJSON C (Suc fuel) ''[1,2,3]'' other =
           Some (Returned (Some ErrorTypeUnmarshaling), other)"
proof -
  have "unmarshal_elements (UnmarshalJSON C (Suc fuel)) [''1'', ''2'', ''3'']
          (Suc (Suc (Suc 0))) that =
        Some (Returned None,
          set_a (Some [JSONNode None None v1 TypeValue False,
                       JSONNode None None v2 TypeValue False,
                       JSONNode None None v3 TypeValue False]) (set_t TypeArray that))"
    using assms by (intro elements_3 decode_scalar_fresh) simp_all
  then show ?thesis
    using assms by (simp add: UnmarshalJSON_array del: unmarshal_elements.simps)
qed

theorem C2_decode_array_text_witness:
  "dec_array ref_codec ''[1,2,3]'' = Inr [''1'', ''2'', ''3'']
   \<and> UnmarshalJSON ref_codec 2 ''[1,2,3]'' zero_node =
       Some (Returned None,
         JSONNode None (Some [JSONNode None None (Some (JNumber 1)) TypeValue False,
                              JSONNode None None (Some (JNumber 2)) TypeValue False,
                              JSONNode None None (Some (JNumber 3)) TypeValue False])
           None TypeArray False)
   \<and> UnmarshalJSON ref_codec 1 ''[1,2,3]''
         (JSONNode (Some [(''k'', zero_node)]) None None TypeMap False) =
       Some (Returned (Some ErrorTypeUnmarshaling),
         JSONNode (Some [(''k'', zero_node)]) None None TypeMap False)"
proof -
  have a: "dec_array ref_codec ''[1,2,3]'' = Inr [''1'', ''2'', ''3'']"
    by code_simp
  have v: "dec_value ref_codec ''1'' = Inr (Some (JNumber 1))"
    "dec_value ref_codec ''2'' = Inr (Some (JNumber 2))"
    "dec_value ref_codec ''3'' = Inr (Some (JNumber 3))"
    by code_simp+
  show ?thesis
    using a C2_decode_array_text [OF a v, of zero_node
        "JSONNode (Some [(''k'', zero_node)]) None None TypeMap False" 0]
    by (simp add: set_a_def set_t_def zero_node_def numeral_2_eq_2)
qed

text \<open>
  C3. A node of kind Object whose map has the one key \<^verbatim>\<open>a\<close>, with an Undefined child, and
  whose \<^verbatim>\<open>dontGenerate\<close> flag is set: decoding \<^verbatim>\<open>{"a":1,"b":2}\<close> returns nil, the child
  at \<^verbatim>\<open>a\<close> becomes the Value node of what \<^verbatim>\<open>1\<close> decodes to, and the map still has that
  one key; \<^verbatim>\<open>b\<close> is dropped. The loop may visit the two members in either order.
\<close>

theorem C3_suppressed_key_dropped:
  assumes \<open>dec_object C ''{"a":1,"b":2}'' = Inr tmp\<close>
    and "tmp = [(''a'', ''1''), (''b'', ''2'')] \<or> tmp = [(''b'', ''2''), (''a'', ''1'')]"
    and "dec_value C ''1'' = Inr v1"
    and "node_t that = TypeMap" and "node_m that = Some [(''a'', child)]"
    and "dontGenerate that" and "node_t child = TypeUndefined"
  shows \<open>UnmarshalJSON C (Suc (Suc fuel)) ''{"a":1,"b":2}'' that =
    Some (Returned None, set_m (Some [(''a'', set_v v1 (set_t TypeValue child))]) that)\<close>
proof -
  have child: "UnmarshalJSON C (Suc fuel) ''1'' child =
      Some (Returned None, set_v v1 (set_t TypeValue child))"
    using assms by (simp add: UnmarshalJSON_scalar)
  have "unmarshal_members (UnmarshalJSON C (Suc fuel)) tmp that =
    Some (Returned None, set_m (Some [(''a'', set_v v1 (set_t TypeValue child))]) that)"
    using assms(2,4-6) child by (auto simp: entries_def store_key_def)
  then show ?thesis
    using assms by (simp add: UnmarshalJSON_object)
qed

theorem C3_suppressed_key_dropped_witness:
  \<open>dec_object ref_codec ''{"a":1,"b":2}'' = Inr [(''a'', ''1''), (''b'', ''2'')]
   \<and> UnmarshalJSON ref_codec 2 ''{"a":1,"b":2}''
        (JSONNode (Some [(''a'', zero_node)]) None None TypeMap True) =
      Some (Returned None,
        JSONNode (Some [(''a'', JSONNode None None (Some (JNumber 1)) TypeValue False)])
          None None TypeMap True)\<close>
proof -
  have o: \<open>dec_object ref_codec ''{"a":1,"b":2}'' = Inr [(''a'', ''1''), (''b'', ''2'')]\<close>
    by code_simp
  have v: "dec_value ref_codec ''1'' = Inr (Some (JNumber 1))"
    by code_simp
  show ?thesis
    using o C3_suppressed_key_dropped [OF o _ v,
        of "JSONNode (Some [(''a'', zero_node)]) None None TypeMap True" zero_node 0]
    by (simp add: set_m_def set_v_def set_t_def zero_node_def numeral_2_eq_2)
qed



text \<open>
  C6. On a fresh node \<^verbatim>\<open>Val(x)\<close> and then \<^verbatim>\<open>Val(y)\<close> both return, \<^verbatim>\<open>Get()\<close> then returns
  \<open>y\<close>, and \<^verbatim>\<open>Map(k)\<close> after \<^verbatim>\<open>Val(x)\<close> panics with \<^verbatim>\<open>ErrorMultipleType\<close>.
\<close>

theorem C6_Val_overwrites:
  "fst (Val x (zero_node :: 'v JSONNode)) = Returned ()
   \<and> fst (Val y (snd (Val x (zero_node :: 'v JSONNode)))) = Returned ()
   \<and> fst (Get (snd (Val y (snd (Val x (zero_node :: 'v JSONNode)))))) = Returned y
   \<and> fst (Map k (snd (Val x (zero_node :: 'v JSONNode)))) = Panicked ErrorMultipleType"
  by (simp add: Val_unfold Get_def Map_def)

theorem C6_Val_overwrites_witness:
  "fst (Get (snd (Val (Some (JString ''y''))
          (snd (Val (Some (JString ''x'')) (zero_node :: jvalue JSONNode))))))
     = Returned (Some (JString ''y''))
   \<and> fst (Map ''k'' (snd (Val (Some (JString ''x'')) (zero_node :: jvalue JSONNode))))
     = Panicked ErrorMultipleType"
  using C6_Val_overwrites [of "Some (JString ''x'')" "Some (JString ''y'')" "''k''"]
  by simp

text \<open>
  C8. The claim as stated, for any non-empty input, fails on an input that the generic
  decoder rejects: \<^verbatim>\<open>UnmarshalJSON\<close> returns the decoder's error before it reaches \<^verbatim>\<open>Val\<close>,
  and the node stays Undefined. Here the input is \<^verbatim>\<open>[1,\<close>.
\<close>

theorem C8_rejected_input_counterexample:
  "UnmarshalJSON ref_codec 1 ''[1,'' (JSONNode None None None TypeUndefined True) =
     Some (Returned (Some syntax_error), JSONNode None None None TypeUndefined True)"
  by code_simp

text \<open>
  C8, amended. A node that is Undefined and has \<^verbatim>\<open>dontGenerate\<close> set takes every non-empty
  input, whatever its first byte, down the scalar path. When the generic decoder accepts
  the input, the call returns nil and the node is a Value node that holds the decoded
  value, its map and slice untouched; when the decoder rejects it, its error is returned
  and the node is unchanged.
\<close>

theorem C8_suppressed_undefined_is_scalar:
  assumes "dontGenerate that" and "node_t that = TypeUndefined" and "data \<noteq> []"
  shows "(dec_value C data = Inr x \<longrightarrow>
            UnmarshalJSON C (Suc fuel) data that =
              Some (Returned None, set_v x (set_t TypeValue that))
            \<and> node_t (set_v x (set_t TypeValue that)) = TypeValue
            \<and> node_v (set_v x (set_t TypeValue that)) = x
            \<and> node_m (set_v x (set_t TypeValue that)) = node_m that
            \<and> node_a (set_v x (set_t TypeValue that)) = node_a that)
       \<and> (dec_value C data = Inl err \<longrightarrow>
            UnmarshalJSON C (Suc fuel) data that = Some (Returned (Some err), that))"
  using assms by (simp add: UnmarshalJSON_scalar)

theorem C8_suppressed_undefined_is_scalar_witness:
  "dec_value ref_codec ''[1]'' = Inr (Some (JArray [JNumber 1]))
   \<and> UnmarshalJSON ref_codec 1 ''[1]'' (JSONNode None None None TypeUndefined True) =
       Some (Returned None, JSONNode None None (Some (JArray [JNumber 1])) TypeValue True)
   \<and> dec_value ref_codec ''tru'' = Inl syntax_error
   \<and> UnmarshalJSON ref_codec 1 ''tru'' (JSONNode None None None TypeUndefined True) =
       Some (Returned (Some syntax_error), JSONNode None None None TypeUndefined True)"
proof -
  have v: "dec_value ref_codec ''[1]'' = Inr (Some (JArray [JNumber 1]))"
    by code_simp
  have e: "dec_value ref_codec ''tru'' = Inl syntax_error"
    by code_simp
  show ?thesis
    using v e
      C8_suppressed_undefined_is_scalar
        [of "JSONNode None None None TypeUndefined True" "''[1]''" ref_codec
            "Some (JArray [JNumber 1])" 0 syntax_error]
      C8_suppressed_undefined_is_scalar
        [of "JSONNode None None None TypeUndefined True" "''tru''" ref_codec
            None 0 syntax_error]
    by (simp add: set_v_def set_t_def)
qed

text \<open>
  C9. \<^verbatim>\<open>At\<close> with a negative integer as its first step, on an Undefined node without
  elements: the call panics with \<^verbatim>\<open>ErrorArrayNegativeValue\<close>, and the node it leaves has
  kind Array and length 0, since the kind is assigned before the index is checked.
\<close>

theorem C9_negative_index_not_atomic:
  assumes "i < 0" and "node_t n = TypeUndefined" and "node_a n = None"
  shows "At (StepInt i # rest) n = (Panicked ErrorArrayNegativeValue, set_t TypeArray n)
   \<and> node_t (snd (At (StepInt i # rest) n)) = TypeArray
   \<and> len_a (snd (At (StepInt i # rest) n)) = 0"
  using assms by (simp add: len_a_def elems_def)

theorem C9_negative_index_not_atomic_witness:
  "At [StepInt (- 1)] (zero_node :: jvalue JSONNode) =
     (Panicked ErrorArrayNegativeValue, JSONNode None None None TypeArray False)"
  using C9_negative_index_not_atomic [of "- 1" "zero_node :: jvalue JSONNode" "[]"]
  by (simp add: set_t_def)

text \<open>
  C10. A text that does not begin with \<^verbatim>\<open>{\<close> or \<^verbatim>\<open>[\<close> and that the generic decoder
  accepts, decoded into a node of kind Object or Array whose \<^verbatim>\<open>dontGenerate\<close> flag is not
  set: the call panics with \<^verbatim>\<open>ErrorMultipleType\<close>, raised by \<^verbatim>\<open>Val\<close>, and the node is
  unchanged.
\<close>

theorem C10_scalar_onto_container_panics:
  assumes "node_t that = TypeMap \<or> node_t that = TypeArray" and "\<not> dontGenerate that"
    and "data \<noteq> []" and "data ! 0 \<noteq> CHR ''{''" and "data ! 0 \<noteq> CHR ''[''"
    and "dec_value C data = Inr x"
  shows "UnmarshalJSON C (Suc fuel) data that = Some (Panicked ErrorMultipleType, that)"
  using assms by (auto simp add: UnmarshalJSON_scalar)

theorem C10_scalar_onto_container_panics_witness:
  "dec_value ref_codec ''true'' = Inr (Some (JBool True))
   \<and> UnmarshalJSON ref_codec 1 ''true''
       (JSONNode (Some [(''k'', zero_node)]) None None TypeMap False) =
     Some (Panicked ErrorMultipleType,
       JSONNode (Some [(''k'', zero_node)]) None None TypeMap False)"
proof -
  have v: "dec_value ref_codec ''true'' = Inr (Some (JBool True))"
    by code_simp
  show ?thesis
    using v C10_scalar_onto_container_panics
      [of "JSONNode (Some [(''k'', zero_node)]) None None TypeMap False" "''true''"
          ref_codec "Some (JBool True)" 0]
    by simp
qed

end
